theory Spec2Isabelle
  imports Complex_Main "HOL-Library.Sublist"
begin

section \<open>Strings\<close>

text \<open>
  A JavaScript string is modelled as a list of code units; the code units are those
  below 256 (\<^typ>\<open>char\<close>), read as Latin-1. \<open>length\<close> is the string's \<open>length\<close>,
  \<^const>\<open>prefix\<close> is \<open>startsWith\<close> (arguments swapped) and \<^const>\<open>sublist\<close> is
  \<open>includes\<close> (arguments swapped).
\<close>

definition is_space :: "char \<Rightarrow> bool" where
  \<comment> \<open>the regular expression class \<open>\s\<close>, which is also what \<open>trim\<close> strips\<close>
  "is_space c = (let n = (of_char c :: nat) in (9 \<le> n \<and> n \<le> 13) \<or> n = 32 \<or> n = 160)"

definition is_word :: "char \<Rightarrow> bool" where
  \<comment> \<open>the regular expression class \<open>\w\<close>: \<open>[A-Za-z0-9_]\<close>\<close>
  "is_word c = (let n = (of_char c :: nat) in
     (48 \<le> n \<and> n \<le> 57) \<or> (65 \<le> n \<and> n \<le> 90) \<or> n = 95 \<or> (97 \<le> n \<and> n \<le> 122))"

definition lower_char :: "char \<Rightarrow> char" where
  "lower_char c = (let n = (of_char c :: nat) in
     if (65 \<le> n \<and> n \<le> 90) \<or> (192 \<le> n \<and> n \<le> 222 \<and> n \<noteq> 215) then char_of (n + 32) else c)"

definition toLowerCase :: "string \<Rightarrow> string" where
  "toLowerCase s = map lower_char s"

definition trim :: "string \<Rightarrow> string" where
  "trim s = rev (dropWhile is_space (rev (dropWhile is_space s)))"

definition slice :: "'a list \<Rightarrow> int \<Rightarrow> int \<Rightarrow> 'a list" where
  \<comment> \<open>\<open>s.slice(start, end)\<close>, of strings and of arrays: a negative index counts from the
      end, both are clamped\<close>
  "slice s start end =
     (let len = int (length s);
          from = (if start < 0 then max (len + start) 0 else min start len);
          to = (if end < 0 then max (len + end) 0 else min end len)
      in take (nat (to - from)) (drop (nat from) s))"

definition slice_from :: "'a list \<Rightarrow> int \<Rightarrow> 'a list" where
  \<comment> \<open>\<open>s.slice(start)\<close>\<close>
  "slice_from s start = slice s start (int (length s))"

definition indexOf :: "string \<Rightarrow> string \<Rightarrow> int \<Rightarrow> int" where
  \<comment> \<open>\<open>s.indexOf(p, position)\<close>: the first index from \<open>position\<close> on where \<open>p\<close> occurs, else -1\<close>
  "indexOf s p position =
     (case find (\<lambda>k. prefix p (drop k s)) [nat (max 0 position) ..< length s + 1] of
        None \<Rightarrow> - 1
      | Some k \<Rightarrow> int k)"

definition join :: "string \<Rightarrow> string list \<Rightarrow> string" where
  \<comment> \<open>\<open>parts.join(sep)\<close>\<close>
  "join sep parts = (case parts of [] \<Rightarrow> [] | p # ps \<Rightarrow> p @ concat (map (\<lambda>q. sep @ q) ps))"

section \<open>Chunker\<close>

record RawChunk =
  text_of :: string
  startOffset :: int
  endOffset :: int

definition is_terminator :: "char \<Rightarrow> bool" where
  \<comment> \<open>the class \<open>[.!?]\<close>\<close>
  "is_terminator c = (c = CHR ''.'' \<or> c = CHR ''!'' \<or> c = CHR ''?'')"

text \<open>
  \<open>text.matchAll(/[^.!?]*[.!?]+/g)\<close>, on the text that remains from index \<open>pos\<close> on. The
  greedy \<open>[^.!?]*\<close> takes the run of non-terminators, \<open>[.!?]+\<close> the run of terminators that
  follows; where no terminator remains there is no further match. Each match is given with
  its index.
\<close>

function matchAll_sentences :: "nat \<Rightarrow> string \<Rightarrow> (nat \<times> string) list" where
  "matchAll_sentences pos s =
     (let body = takeWhile (\<lambda>c. \<not> is_terminator c) s;
          rest = dropWhile (\<lambda>c. \<not> is_terminator c) s
      in if rest = [] then []
         else let m = body @ takeWhile is_terminator rest
              in (pos, m) # matchAll_sentences (pos + length m) (dropWhile is_terminator rest))"
  by pat_completeness auto
termination
proof (relation "measure (\<lambda>(pos, s). length s)", goal_cases)
  case 1
  show ?case by simp
next
  case (2 pos s body rest m)
  obtain c cs where r: "rest = c # cs"
    using 2(3) by (cases rest) auto
  have "is_terminator (hd rest)"
    using 2(2,3) hd_dropWhile [of "\<lambda>c. \<not> is_terminator c" s] by simp
  with r have "length (dropWhile is_terminator rest) \<le> length cs"
    by (simp add: length_dropWhile_le)
  also have "length cs < length rest" using r by simp
  also have "length rest \<le> length s" using 2(2) by (simp add: length_dropWhile_le)
  finally show ?case by simp
qed

declare matchAll_sentences.simps [simp del]

fun push_sentences :: "(nat \<times> string) list \<Rightarrow> RawChunk list \<Rightarrow> RawChunk list" where
  \<comment> \<open>the loop over the matches\<close>
  "push_sentences [] chunks = chunks"
| "push_sentences ((index, m) # ms) chunks =
     (let sentence = trim m
      in push_sentences ms
           (if length sentence > 0
            then chunks @ [\<lparr>text_of = sentence, startOffset = int index,
                             endOffset = int index + int (length m)\<rparr>]
            else chunks))"

definition chunkBySentences :: "string \<Rightarrow> RawChunk list" where
  "chunkBySentences text =
     (let chunks = push_sentences (matchAll_sentences 0 text) [];
          lastEnd = (if chunks = [] then 0 else endOffset (last chunks))
      in if lastEnd < int (length text)
         then (let remaining = trim (slice_from text lastEnd)
               in if length remaining > 0
                  then chunks @ [\<lparr>text_of = remaining, startOffset = lastEnd,
                                   endOffset = int (length text)\<rparr>]
                  else chunks)
         else chunks)"

definition newline :: char where
  "newline = char_of (10 :: nat)"

text \<open>\<open>text.split(/\n\n+/)\<close>: the pieces between the runs of two or more newlines.\<close>

function split_paragraphs :: "string \<Rightarrow> string \<Rightarrow> string list" where
  "split_paragraphs acc [] = [rev acc]"
| "split_paragraphs acc (c # cs) =
     (if c = newline \<and> cs \<noteq> [] \<and> hd cs = newline
      then rev acc # split_paragraphs [] (dropWhile (\<lambda>d. d = newline) cs)
      else split_paragraphs (c # acc) cs)"
  by pat_completeness auto
termination
  by (relation "measure (\<lambda>(acc, s). length s)") (auto simp: le_imp_less_Suc length_dropWhile_le)

fun push_paragraphs :: "string \<Rightarrow> string list \<Rightarrow> int \<Rightarrow> RawChunk list \<Rightarrow> RawChunk list" where
  \<comment> \<open>the loop over the paragraphs, with the running \<open>offset\<close>\<close>
  "push_paragraphs text [] offset chunks = chunks"
| "push_paragraphs text (para # paras) offset chunks =
     (let trimmed = trim para
      in if length trimmed > 0
         then (let start = indexOf text para offset
               in push_paragraphs text paras (start + int (length para))
                    (chunks @ [\<lparr>text_of = trimmed, startOffset = start,
                                 endOffset = start + int (length para)\<rparr>]))
         else push_paragraphs text paras offset chunks)"

definition chunkByParagraphs :: "string \<Rightarrow> RawChunk list" where
  "chunkByParagraphs text = push_paragraphs text (split_paragraphs [] text) 0 []"

section \<open>Similarity scorer\<close>

definition cosineSimilarity :: "real list \<Rightarrow> real list \<Rightarrow> real" where
  "cosineSimilarity a b =
     (if length a = 0 \<or> length b = 0 \<or> length a \<noteq> length b then 0
      else (let (dotProduct, normA, normB) =
                  fold (\<lambda>(ai, bi) (d, na, nb). (d + ai * bi, na + ai * ai, nb + bi * bi))
                    (zip a b) (0, 0, 0);
                denominator = sqrt normA * sqrt normB
            in if denominator = 0 then 0 else dotProduct / denominator))"

section \<open>Ranking engine\<close>

datatype js_error = AbortError | Error string

record SearchItem =
  item_id :: string
  label :: string
  item_keywords :: "string list option"
  description :: "string option"

record 'a RankedItem =
  item :: 'a
  score :: real

record TextChunk = RawChunk +
  chunk_score :: real

datatype strategy = Sentences | Paragraphs

record SearchInTextOptions =
  chunkStrategy :: "strategy option"
  maxResults :: "int option"
  minScore :: "real option"

text \<open>
  The embedding collaborator (\<open>embedMany\<close> on the provider's model) is a parameter: it
  answers a list of texts with a rejection or with its \<open>embeddings\<close>, which the code
  checks for being absent, for their number, and entry by entry.
\<close>

type_synonym embeddings = "real list option list option"

type_synonym embedMany = "string list \<Rightarrow> js_error + embeddings"

record Client =
  embeddingProvider :: "embedMany option"
  initialized :: bool

function split_spaces :: "string \<Rightarrow> string \<Rightarrow> string list" where
  \<comment> \<open>\<open>s.split(/\s+/)\<close>\<close>
  "split_spaces acc [] = [rev acc]"
| "split_spaces acc (c # cs) =
     (if is_space c then rev acc # split_spaces [] (dropWhile is_space cs)
      else split_spaces (c # acc) cs)"
  by pat_completeness auto
termination
  by (relation "measure (\<lambda>(acc, s). length s)") (auto simp: le_imp_less_Suc length_dropWhile_le)

definition tokenize :: "string \<Rightarrow> string list" where
  "tokenize s =
     filter (\<lambda>w. length w > 0)
       (split_spaces []
          (map (\<lambda>c. if \<not> is_word c \<and> \<not> is_space c then CHR '' '' else c) (toLowerCase s)))"

definition newSet :: "'a list \<Rightarrow> 'a list" where
  \<comment> \<open>\<open>new Set(xs)\<close>, in its iteration order: each value once, where it came first\<close>
  "newSet xs = fold (\<lambda>x s. if x \<in> set s then s else s @ [x]) xs []"

definition elem_at :: "'a list \<Rightarrow> nat \<Rightarrow> 'a option" where
  \<comment> \<open>\<open>xs[i]\<close>, \<open>undefined\<close> out of range\<close>
  "elem_at xs i = (if i < length xs then Some (xs ! i) else None)"

definition sort_desc :: "'a RankedItem list \<Rightarrow> 'a RankedItem list" where
  \<comment> \<open>\<open>scored.sort((a, b) => b.score - a.score)\<close>; the sort is stable\<close>
  "sort_desc scored = sort_key (\<lambda>r. - score r) scored"

definition itemText :: "'a SearchItem_scheme \<Rightarrow> string" where
  \<comment> \<open>the text of an item that is embedded\<close>
  "itemText it =
     join '' '' (filter (\<lambda>p. p \<noteq> [])
       ([label it, (case description it of None \<Rightarrow> [] | Some d \<Rightarrow> d)]
        @ (case item_keywords it of None \<Rightarrow> [] | Some ks \<Rightarrow> ks)))"

definition keywordBoost :: "string \<Rightarrow> 'a SearchItem_scheme \<Rightarrow> string \<Rightarrow> real" where
  "keywordBoost query it searchText =
     (let queryLower = toLowerCase query; queryTokens = tokenize query
      in if sublist queryLower (toLowerCase (label it)) then 0.3
         else if (case item_keywords it of None \<Rightarrow> False
                  | Some ks \<Rightarrow> list_ex (\<lambda>k. sublist queryLower (toLowerCase k)) ks) then 0.25
         else if list_ex (\<lambda>qt. sublist qt searchText) queryTokens then 0.15
         else 0)"

definition embedding_score :: "real list \<Rightarrow> real list option list \<Rightarrow> nat \<Rightarrow> real" where
  \<comment> \<open>the similarity of the query to candidate \<open>i\<close>, 0 where its vector is missing\<close>
  "embedding_score queryEmbedding es i =
     (case elem_at es (i + 1) of
        Some (Some e) \<Rightarrow> cosineSimilarity queryEmbedding e
      | _ \<Rightarrow> 0)"

definition items_try ::
  "embedMany \<Rightarrow> string \<Rightarrow> 'a SearchItem_scheme list
     \<Rightarrow> js_error + 'a SearchItem_scheme RankedItem list" where
  \<comment> \<open>the \<open>try\<close> block of \<open>searchItems\<close>\<close>
  "items_try embedder query items =
     (let itemTexts = map itemText items
      in case embedder (query # itemTexts) of
           Inl err \<Rightarrow> Inl err
         | Inr None \<Rightarrow> Inl (Error ''Invalid embeddings'')
         | Inr (Some es) \<Rightarrow>
             if length es \<noteq> length items + 1 then Inl (Error ''Invalid embeddings'')
             else (case elem_at es 0 of
                     Some (Some queryEmbedding) \<Rightarrow>
                       if length queryEmbedding = 0 then Inl (Error ''Empty query embedding'')
                       else Inr (sort_desc
                              (map (\<lambda>(it, i).
                                      let embeddingScore = embedding_score queryEmbedding es i;
                                          searchText = (case elem_at itemTexts i of
                                                          Some t \<Rightarrow> toLowerCase t | None \<Rightarrow> []);
                                          boost = keywordBoost query it searchText
                                      in \<lparr>item = it, score = min (embeddingScore + boost) 1\<rparr>)
                                 (zip items [0 ..< length items])))
                   | _ \<Rightarrow> Inl (Error ''Empty query embedding'')))"

fun partial_match :: "string \<Rightarrow> string list \<Rightarrow> real" where
  \<comment> \<open>the inner loop over the item's words, left at the first word that qualifies\<close>
  "partial_match qWord [] = 0"
| "partial_match qWord (itemWord # ws) =
     (if prefix qWord itemWord \<or> prefix itemWord qWord then 0.5 else partial_match qWord ws)"

definition lexical_text :: "'a SearchItem_scheme \<Rightarrow> string" where
  \<comment> \<open>\<open>searchText\<close> of the lexical ranking: nothing is dropped before the join\<close>
  "lexical_text it =
     toLowerCase (join '' ''
       ([label it, (case description it of None \<Rightarrow> [] | Some d \<Rightarrow> d)]
        @ (case item_keywords it of None \<Rightarrow> [] | Some ks \<Rightarrow> ks)))"

definition lexical_score :: "string list \<Rightarrow> 'a SearchItem_scheme \<Rightarrow> real" where
  "lexical_score queryWords it =
     (let searchText = lexical_text it;
          itemWords = newSet (tokenize searchText);
          matchScore = fold (\<lambda>qWord m.
                         if qWord \<in> set itemWords then m + 1.0
                         else if sublist qWord searchText then m + 0.7
                         else m + partial_match qWord itemWords) queryWords 0
      in min (matchScore / real (length queryWords)) 1)"

definition items_lexical :: "string \<Rightarrow> 'a SearchItem_scheme list \<Rightarrow> 'a SearchItem_scheme RankedItem list" where
  \<comment> \<open>\<open>searchItems\<close> after the embedding branch\<close>
  "items_lexical query items =
     (let queryWords = newSet (tokenize query)
      in if length queryWords = 0 then map (\<lambda>it. \<lparr>item = it, score = 0\<rparr>) items
         else sort_desc (map (\<lambda>it. \<lparr>item = it, score = lexical_score queryWords it\<rparr>) items))"

definition searchItems ::
  "Client \<Rightarrow> string \<Rightarrow> 'a SearchItem_scheme list \<Rightarrow> bool
     \<Rightarrow> js_error + 'a SearchItem_scheme RankedItem list" where
  \<comment> \<open>\<open>aborted\<close>: the signal is given and aborted when the call is made\<close>
  "searchItems c query items aborted =
     (if length items = 0 then Inr []
      else if aborted then Inl AbortError
      else case (if initialized c then embeddingProvider c else None) of
             Some embedder \<Rightarrow>
               (case items_try embedder query items of
                  Inr scored \<Rightarrow> Inr scored
                | Inl AbortError \<Rightarrow> Inl AbortError
                | Inl (Error m) \<Rightarrow> Inr (items_lexical query items))
           | None \<Rightarrow> Inr (items_lexical query items))"

definition searchInText ::
  "Client \<Rightarrow> string \<Rightarrow> string \<Rightarrow> SearchInTextOptions \<Rightarrow> bool \<Rightarrow> js_error + TextChunk list" where
  "searchInText c query text opts aborted =
     (if aborted then Inl AbortError
      else
        let strat = (case chunkStrategy opts of None \<Rightarrow> Sentences | Some st \<Rightarrow> st);
            maxRes = (case maxResults opts of None \<Rightarrow> 5 | Some m \<Rightarrow> m);
            minSc = (case minScore opts of None \<Rightarrow> 0.3 | Some m \<Rightarrow> m);
            rawChunks = (if strat = Paragraphs then chunkByParagraphs text
                         else chunkBySentences text)
        in if length rawChunks = 0 then Inr []
           else case (if initialized c then embeddingProvider c else None) of
                  None \<Rightarrow> Inl (Error ''Embedding provider not initialized for text search'')
                | Some embedder \<Rightarrow>
                    (let values = query # map text_of rawChunks
                     in case embedder values of
                          Inl err \<Rightarrow> Inl err
                        | Inr None \<Rightarrow> Inl (Error ''Invalid embeddings response'')
                        | Inr (Some es) \<Rightarrow>
                            if length es \<noteq> length values
                            then Inl (Error ''Invalid embeddings response'')
                            else (case elem_at es 0 of
                                    Some (Some queryEmbedding) \<Rightarrow>
                                      if length queryEmbedding = 0
                                      then Inl (Error ''Empty query embedding'')
                                      else
                                        let scored =
                                              map (\<lambda>(chunk, i).
                                                     \<lparr>text_of = text_of chunk,
                                                      startOffset = startOffset chunk,
                                                      endOffset = endOffset chunk,
                                                      chunk_score =
                                                        embedding_score queryEmbedding es i\<rparr>)
                                                (zip rawChunks [0 ..< length rawChunks])
                                        in Inr (slice
                                                  (sort_key (\<lambda>ch. - chunk_score ch)
                                                     (filter (\<lambda>ch. chunk_score ch \<ge> minSc) scored))
                                                  0 maxRes)
                                  | _ \<Rightarrow> Inl (Error ''Empty query embedding''))))"

section \<open>Highlight projector\<close>

record HighlightedSegment =
  seg_text :: string
  isHighlight :: bool
  seg_score :: "real option"

fun project_chunks ::
  "string \<Rightarrow> TextChunk list \<Rightarrow> int \<Rightarrow> HighlightedSegment list \<Rightarrow> int \<times> HighlightedSegment list" where
  \<comment> \<open>the loop over the sorted chunks, with \<open>cursor\<close> and \<open>segments\<close>\<close>
  "project_chunks text [] cursor segments = (cursor, segments)"
| "project_chunks text (chunk # chunks) cursor segments =
     (let gap = (if startOffset chunk > cursor
                 then [\<lparr>seg_text = slice text cursor (startOffset chunk), isHighlight = False,
                        seg_score = None\<rparr>]
                 else [])
      in project_chunks text chunks (endOffset chunk)
           (segments @ gap @ [\<lparr>seg_text = text_of chunk, isHighlight = True,
                                seg_score = Some (chunk_score chunk)\<rparr>]))"

definition computeHighlightedSegments :: "string \<Rightarrow> TextChunk list \<Rightarrow> HighlightedSegment list" where
  "computeHighlightedSegments text results =
     (if length results = 0 \<or> length text = 0
      then [\<lparr>seg_text = text, isHighlight = False, seg_score = None\<rparr>]
      else (let sorted_chunks = sort_key startOffset results;
                (cursor, segments) = project_chunks text sorted_chunks 0 []
            in if cursor < int (length text)
               then segments @ [\<lparr>seg_text = slice_from text cursor, isHighlight = False,
                                 seg_score = None\<rparr>]
               else segments))"

section \<open>Query controller\<close>

text \<open>
  The state of one hook instance: the React state (\<open>query\<close>, \<open>results\<close>, \<open>isSearching\<close>,
  \<open>error\<close>) and the refs. An \<open>AbortController\<close> is an index into \<open>signals\<close>, the store
  of the controllers created so far, each with the \<open>aborted\<close> flag of its signal. A call is
  made through the callback of the latest render, so what the closure captured is the
  current state. The debounce timer and the callbacks \<open>onResults\<close> and \<open>onError\<close> are
  left out.
\<close>

record 'r Controller =
  query :: string
  results :: "'r list"
  isSearching :: bool
  error :: "js_error option"
  lastQueryRef :: string
  abortControllerRef :: "nat option"
  signals :: "bool list"

record 'r SearchController = "'r Controller" +
  lastTextRef :: string

record 'r SelectController = "'r Controller" +
  isOpen :: bool

text \<open>
  An asynchronous \<open>search\<close> is cut at its one \<open>await\<close>. Up to there it either returns, or
  it has made the client call under a new controller and waits for it to settle
  (\<open>Awaiting\<close>, with that controller). What follows the \<open>await\<close> is a function of its own,
  of the controller the closure holds and of how the client call settled.
\<close>

datatype 'a call = Returned 'a | Awaiting nat

definition supersede :: "string \<Rightarrow> ('r, 'z) Controller_scheme \<Rightarrow> nat \<times> ('r, 'z) Controller_scheme" where
  \<comment> \<open>abort the pending request, install a new controller, record the query\<close>
  "supersede q s =
     (let s1 = (case abortControllerRef s of
                  None \<Rightarrow> s
                | Some c \<Rightarrow> s\<lparr>signals := (signals s)[c := True]\<rparr>);
          abortController = length (signals s1)
      in (abortController,
          s1\<lparr>signals := signals s1 @ [False], abortControllerRef := Some abortController,
             lastQueryRef := q, isSearching := True, error := None\<rparr>))"

definition finally_search :: "nat \<Rightarrow> ('r, 'z) Controller_scheme \<Rightarrow> ('r, 'z) Controller_scheme" where
  \<comment> \<open>the \<open>finally\<close> block\<close>
  "finally_search abortController s =
     (if abortControllerRef s = Some abortController then s\<lparr>isSearching := False\<rparr> else s)"

definition useSearch_search ::
  "bool \<Rightarrow> int \<Rightarrow> string \<Rightarrow> string option \<Rightarrow> (TextChunk, 'z) SearchController_scheme
     \<Rightarrow> TextChunk list call \<times> (TextChunk, 'z) SearchController_scheme" where
  \<comment> \<open>\<open>search\<close> of \<open>useSearch\<close> up to its \<open>await\<close>; \<open>client\<close>: the hook has a client\<close>
  "useSearch_search client minQueryLength text searchQuery s =
     (let q = (case searchQuery of None \<Rightarrow> query s | Some sq \<Rightarrow> sq)
      in if \<not> client then (Returned [], s)
         else if int (length q) < minQueryLength then (Returned [], s\<lparr>results := []\<rparr>)
         else if q = lastQueryRef s \<and> text = lastTextRef s then (Returned (results s), s)
         else (let (abortController, s1) = supersede q s
               in (Awaiting abortController, s1\<lparr>lastTextRef := text\<rparr>)))"

definition useSearch_settle ::
  "nat \<Rightarrow> js_error + TextChunk list \<Rightarrow> (TextChunk, 'z) SearchController_scheme
     \<Rightarrow> TextChunk list \<times> (TextChunk, 'z) SearchController_scheme" where
  \<comment> \<open>\<open>search\<close> of \<open>useSearch\<close> from its \<open>await\<close> on\<close>
  "useSearch_settle abortController outcome s =
     (case outcome of
        Inr chunks \<Rightarrow>
          if abortControllerRef s \<noteq> Some abortController
          then ([], finally_search abortController s)
          else (chunks, finally_search abortController (s\<lparr>results := chunks\<rparr>))
      | Inl AbortError \<Rightarrow> ([], finally_search abortController s)
      | Inl (Error m) \<Rightarrow> ([], finally_search abortController (s\<lparr>error := Some (Error m)\<rparr>)))"

definition useSelect_search ::
  "bool \<Rightarrow> int \<Rightarrow> string \<Rightarrow> ('i RankedItem, 'z) SelectController_scheme
     \<Rightarrow> 'i RankedItem list call \<times> ('i RankedItem, 'z) SelectController_scheme" where
  \<comment> \<open>\<open>search\<close> of \<open>useSelect\<close> up to its \<open>await\<close>\<close>
  "useSelect_search client minQueryLength searchQuery s =
     (if \<not> client then (Returned [], s)
      else if int (length searchQuery) < minQueryLength then (Returned [], s\<lparr>results := []\<rparr>)
      else if searchQuery = lastQueryRef s then (Returned [], s)
      else (let (abortController, s1) = supersede searchQuery s
            in (Awaiting abortController, s1)))"

definition threshold_and_cap :: "real \<Rightarrow> int \<Rightarrow> 'i RankedItem list \<Rightarrow> 'i RankedItem list" where
  \<comment> \<open>the two conditional reassignments of \<open>ranked\<close> in \<open>useSelect\<close>\<close>
  "threshold_and_cap minSc maxRes ranked =
     (let ranked1 = (if minSc > 0 then filter (\<lambda>r. score r \<ge> minSc) ranked else ranked)
      in if maxRes > 0 then slice ranked1 0 maxRes else ranked1)"

definition useSelect_settle ::
  "real \<Rightarrow> int \<Rightarrow> nat \<Rightarrow> js_error + 'i RankedItem list \<Rightarrow> ('i RankedItem, 'z) SelectController_scheme
     \<Rightarrow> 'i RankedItem list \<times> ('i RankedItem, 'z) SelectController_scheme" where
  \<comment> \<open>\<open>search\<close> of \<open>useSelect\<close> from its \<open>await\<close> on, with the hook's \<open>minScore\<close> and
      \<open>maxResults\<close>\<close>
  "useSelect_settle minSc maxRes abortController outcome s =
     (case outcome of
        Inr ranked \<Rightarrow>
          if abortControllerRef s \<noteq> Some abortController
          then ([], finally_search abortController s)
          else (let ranked2 = threshold_and_cap minSc maxRes ranked
                in (ranked2, finally_search abortController (s\<lparr>results := ranked2\<rparr>)))
      | Inl AbortError \<Rightarrow> ([], finally_search abortController s)
      | Inl (Error m) \<Rightarrow> ([], finally_search abortController (s\<lparr>error := Some (Error m)\<rparr>)))"

definition displayOptions ::
  "'i list \<Rightarrow> ('i RankedItem, 'z) SelectController_scheme \<Rightarrow> 'i RankedItem list" where
  "displayOptions items s =
     (if query s = [] \<and> isOpen s then map (\<lambda>it. \<lparr>item = it, score = 1\<rparr>) items
      else results s)"

section \<open>Notions of the specification\<close>




text \<open>
  An embedding response that the ranking functions refuse: no list, a number of vectors
  other than that of the candidates plus one, or a query vector that is missing or empty.
\<close>

definition invalid_response :: "nat \<Rightarrow> embeddings \<Rightarrow> bool" where
  "invalid_response n r =
     (case r of
        None \<Rightarrow> True
      | Some es \<Rightarrow>
          length es \<noteq> n + 1
          \<or> (case elem_at es 0 of Some (Some q) \<Rightarrow> length q = 0 | _ \<Rightarrow> True))"



section \<open>Concrete clients, items and controller states\<close>

definition no_backend :: Client where
  "no_backend = \<lparr>embeddingProvider = None, initialized = False\<rparr>"

definition backend :: "embedMany \<Rightarrow> Client" where
  \<comment> \<open>a client after \<open>initialize\<close> with an embedding model\<close>
  "backend embedder = \<lparr>embeddingProvider = Some embedder, initialized = True\<rparr>"

definition embeds_nothing :: embedMany where
  \<comment> \<open>a collaborator that answers with no vector at all\<close>
  "embeds_nothing values = Inr (Some [])"


definition default_opts :: SearchInTextOptions where
  "default_opts = \<lparr>chunkStrategy = None, maxResults = None, minScore = None\<rparr>"

definition cat :: SearchItem where
  "cat = \<lparr>item_id = ''1'', label = ''Cat'', item_keywords = None, description = None\<rparr>"

definition dog :: SearchItem where
  "dog = \<lparr>item_id = ''2'', label = ''Dog'', item_keywords = None, description = None\<rparr>"

definition useSearch_initial :: "string \<Rightarrow> TextChunk SearchController" where
  \<comment> \<open>the state of \<open>useSearch\<close> at its first render\<close>
  "useSearch_initial initialQuery =
     \<lparr>query = initialQuery, results = [], isSearching = False, error = None,
      lastQueryRef = [], abortControllerRef = None, signals = [], lastTextRef = []\<rparr>"

definition useSelect_initial :: "string \<Rightarrow> 'i RankedItem SelectController" where
  \<comment> \<open>the state of \<open>useSelect\<close> at its first render\<close>
  "useSelect_initial initialQuery =
     \<lparr>query = initialQuery, results = [], isSearching = False, error = None,
      lastQueryRef = [], abortControllerRef = None, signals = [], isOpen = False\<rparr>"

definition embeds_alike :: embedMany where
  \<comment> \<open>a collaborator for which every text is as close to the query as can be\<close>
  "embeds_alike values = Inr (Some (map (\<lambda>v. Some [1]) values))"

text \<open>
  Chunks that lie on a text one after the other from \<open>cursor\<close> on, without overlap, each
  with the untrimmed slice of the text between its offsets as its text.
\<close>

fun well_placed :: "string \<Rightarrow> int \<Rightarrow> TextChunk list \<Rightarrow> bool" where
  "well_placed text cursor [] = True"
| "well_placed text cursor (chunk # chunks) =
     (cursor \<le> startOffset chunk \<and> startOffset chunk \<le> endOffset chunk
      \<and> text_of chunk = slice text (startOffset chunk) (endOffset chunk)
      \<and> well_placed text (endOffset chunk) chunks)"

text \<open>
  Two searches in a row on a new \<open>useSearch\<close>, the second issued while the first is pending,
  and the same on a new \<open>useSelect\<close>.
\<close>

definition hello_text :: string where
  "hello_text = ''Hello world. How are you?''"

definition search_first :: "TextChunk SearchController" where
  "search_first = snd (useSearch_search True 2 hello_text (Some ''hello'') (useSearch_initial []))"

definition search_second :: "TextChunk SearchController" where
  "search_second = snd (useSearch_search True 2 hello_text (Some ''you'') search_first)"

definition select_first :: "SearchItem RankedItem SelectController" where
  "select_first = snd (useSelect_search True 1 ''cat'' (useSelect_initial []))"

definition select_second :: "SearchItem RankedItem SelectController" where
  "select_second = snd (useSelect_search True 1 ''dog'' select_first)"


section \<open>The sentence chunker on an example\<close>

lemma matches_hello:
  "matchAll_sentences 0 ''Hello world. How are you?''
     = [(0, ''Hello world.''), (12, '' How are you?'')]"
  by (simp add: matchAll_sentences.simps is_terminator_def)

lemma chunks_hello:
  "chunkBySentences ''Hello world. How are you?'' =
     [\<lparr>text_of = ''Hello world.'', startOffset = 0, endOffset = 12\<rparr>,
      \<lparr>text_of = ''How are you?'', startOffset = 12, endOffset = 25\<rparr>]"
  by (simp add: chunkBySentences_def matches_hello trim_def is_space_def)

lemma chunks_empty: "chunkBySentences [] = []"
  by (simp add: chunkBySentences_def matchAll_sentences.simps)

text \<open>
  C5, as the code has it: \<open>chunkBySentences("Hello world. How are you?")\<close> returns two
  chunks, \<open>{text: "Hello world.", startOffset: 0, endOffset: 12}\<close> and
  \<open>{text: "How are you?", startOffset: 12, endOffset: 25}\<close>. The second match starts at the
  space after the first full stop, and the offsets are those of the match, not of the
  trimmed text.
\<close>

theorem chunkBySentences_hello:
  "chunkBySentences ''Hello world. How are you?'' =
     [\<lparr>text_of = ''Hello world.'', startOffset = 0, endOffset = 12\<rparr>,
      \<lparr>text_of = ''How are you?'', startOffset = 12, endOffset = 25\<rparr>]"
  by (simp add: chunkBySentences_def matches_hello trim_def is_space_def)

text \<open>C5 as stated, with the second chunk starting at 13, does not hold.\<close>

theorem chunkBySentences_hello_not_13:
  "chunkBySentences ''Hello world. How are you?'' \<noteq>
     [\<lparr>text_of = ''Hello world.'', startOffset = 0, endOffset = 12\<rparr>,
      \<lparr>text_of = ''How are you?'', startOffset = 13, endOffset = 25\<rparr>]"
  by (simp add: chunkBySentences_def matches_hello trim_def is_space_def)

section \<open>The similarity scorer\<close>














section \<open>Text search without an embedding collaborator\<close>

text \<open>
  C6, as the code has it: with no embedding collaborator ready, \<open>searchInText\<close> throws
  \<open>AbortError\<close> when the signal is aborted already, returns the empty list when the text has
  no chunk, and in every other case throws the error that the embedding provider is not
  initialized for text search; it never ranks lexically.
\<close>

theorem searchInText_no_provider:
  assumes "embeddingProvider c = None \<or> \<not> initialized c"
  shows "searchInText c qry text opts aborted =
     (if aborted then Inl AbortError
      else if (if chunkStrategy opts = Some Paragraphs then chunkByParagraphs text
               else chunkBySentences text) = [] then Inr []
      else Inl (Error ''Embedding provider not initialized for text search''))"
  using assms by (auto simp: searchInText_def Let_def split: option.splits strategy.splits)

text \<open>The theorem on a text of two sentences.\<close>

theorem searchInText_no_provider_witness:
  "searchInText no_backend ''you'' ''Hello world. How are you?'' default_opts False
     = Inl (Error ''Embedding provider not initialized for text search'')"
  using searchInText_no_provider [of no_backend "''you''" "''Hello world. How are you?''" default_opts False]
  by (simp add: no_backend_def default_opts_def chunks_hello)

text \<open>
  C6 as stated fails on the empty text: the call returns the empty list, with no error.
\<close>

theorem searchInText_no_provider_empty_text:
  "searchInText no_backend ''you'' [] default_opts False = Inr []"
  by (simp add: searchInText_def no_backend_def default_opts_def chunks_empty)

section \<open>The options of the item selection\<close>

text \<open>
  C10: in \<open>useSelect\<close>, when the dropdown is open and the query is the empty string, the
  options are the input items in their order, each with score 1, whatever \<open>results\<close> holds.
\<close>

theorem displayOptions_open_empty:
  "isOpen s \<and> query s = [] \<longrightarrow> displayOptions items s = map (\<lambda>it. \<lparr>item = it, score = 1\<rparr>) items"
  by (simp add: displayOptions_def)

text \<open>The theorem on a state whose committed results hold one item with another score.\<close>

theorem displayOptions_open_empty_witness:
  "displayOptions [dog, cat] ((useSelect_initial [])\<lparr>results := [\<lparr>item = cat, score = 1 / 2\<rparr>], isOpen := True\<rparr>)
     = [\<lparr>item = dog, score = 1\<rparr>, \<lparr>item = cat, score = 1\<rparr>]"
  using displayOptions_open_empty [of "(useSelect_initial [])\<lparr>results := [\<lparr>item = cat, score = 1 / 2\<rparr>], isOpen := True\<rparr>" "[dog, cat]"]
  by (simp add: useSelect_initial_def)

section \<open>Lexical ranking\<close>

lemma tokenize_cat: "tokenize ''cat'' = [''cat'']"
  by (simp add: tokenize_def toLowerCase_def lower_char_def is_word_def is_space_def)

lemma lexical_text_Cat:
  "lexical_text \<lparr>item_id = i, label = ''Cat'', item_keywords = None, description = None\<rparr> = ''cat ''"
  by code_simp

lemma lexical_text_Dog:
  "lexical_text \<lparr>item_id = i, label = ''Dog'', item_keywords = None, description = None\<rparr> = ''dog ''"
  by code_simp

lemma tokenize_cat_sp: "tokenize ''cat '' = [''cat'']"
  by (simp add: tokenize_def toLowerCase_def lower_char_def is_word_def is_space_def)

lemma tokenize_dog_sp: "tokenize ''dog '' = [''dog'']"
  by (simp add: tokenize_def toLowerCase_def lower_char_def is_word_def is_space_def)

lemma score_Cat:
  "lexical_score [''cat''] \<lparr>item_id = i, label = ''Cat'', item_keywords = None, description = None\<rparr> = 1"
  by (simp add: lexical_score_def lexical_text_Cat tokenize_cat_sp newSet_def)

lemma score_Dog:
  "lexical_score [''cat''] \<lparr>item_id = i, label = ''Dog'', item_keywords = None, description = None\<rparr> = 0"
  by (simp add: lexical_score_def lexical_text_Dog tokenize_dog_sp newSet_def sublist_code prefix_code)


lemma lexical_dog_cat:
  "items_lexical ''cat''
     [\<lparr>item_id = j, label = ''Dog'', item_keywords = None, description = None\<rparr>,
      \<lparr>item_id = i, label = ''Cat'', item_keywords = None, description = None\<rparr>]
   = [\<lparr>item = \<lparr>item_id = i, label = ''Cat'', item_keywords = None, description = None\<rparr>, score = 1\<rparr>,
      \<lparr>item = \<lparr>item_id = j, label = ''Dog'', item_keywords = None, description = None\<rparr>, score = 0\<rparr>]"
  by (simp add: items_lexical_def tokenize_cat newSet_def score_Cat score_Dog sort_desc_def)















section \<open>Invalid embedding responses\<close>

lemma items_try_invalid:
  assumes "embedder (qry # map itemText items) = Inr r" and "invalid_response (length items) r"
  shows "items_try embedder qry items = Inl (Error ''Invalid embeddings'')
         \<or> items_try embedder qry items = Inl (Error ''Empty query embedding'')"
  using assms
  by (auto simp: items_try_def invalid_response_def Let_def split: option.splits)

lemma searchInText_invalid:
  assumes "initialized c" and "embeddingProvider c = Some embedder"
    and "chunks = (if chunkStrategy opts = Some Paragraphs then chunkByParagraphs text
                   else chunkBySentences text)"
    and "chunks \<noteq> []"
    and "embedder (qry # map text_of chunks) = Inr r" and "invalid_response (length chunks) r"
  shows "searchInText c qry text opts False = Inl (Error ''Invalid embeddings response'')
         \<or> searchInText c qry text opts False = Inl (Error ''Empty query embedding'')"
  using assms
  by (auto simp: searchInText_def invalid_response_def Let_def split: option.splits strategy.splits)

text \<open>
  C7, as the code has it: when the collaborator answers with a number of vectors other than
  that of the candidates plus one, or with a missing or empty query vector, \<open>searchInText\<close>
  throws the error to its caller, while \<open>searchItems\<close> catches it in its \<open>try\<close> block and
  returns the lexical ranking of the items.
\<close>

theorem invalid_embeddings:
  assumes "initialized c" and "embeddingProvider c = Some embedder"
  shows "(items \<noteq> [] \<and> embedder (qry # map itemText items) = Inr r
            \<and> invalid_response (length items) r
          \<longrightarrow> searchItems c qry items False = Inr (items_lexical qry items))
       \<and> (chunks = (if chunkStrategy opts = Some Paragraphs then chunkByParagraphs text
                     else chunkBySentences text)
            \<and> chunks \<noteq> [] \<and> embedder (qry # map text_of chunks) = Inr r'
            \<and> invalid_response (length chunks) r'
          \<longrightarrow> searchInText c qry text opts False = Inl (Error ''Invalid embeddings response'')
              \<or> searchInText c qry text opts False = Inl (Error ''Empty query embedding''))"
proof (intro conjI impI)
  assume a: "items \<noteq> [] \<and> embedder (qry # map itemText items) = Inr r
            \<and> invalid_response (length items) r"
  then show "searchItems c qry items False = Inr (items_lexical qry items)"
    using items_try_invalid [of embedder qry items r] assms
    by (auto simp: searchItems_def)
next
  assume "chunks = (if chunkStrategy opts = Some Paragraphs then chunkByParagraphs text
                     else chunkBySentences text)
            \<and> chunks \<noteq> [] \<and> embedder (qry # map text_of chunks) = Inr r'
            \<and> invalid_response (length chunks) r'"
  then show "searchInText c qry text opts False = Inl (Error ''Invalid embeddings response'')
              \<or> searchInText c qry text opts False = Inl (Error ''Empty query embedding'')"
    using searchInText_invalid [OF assms, of chunks opts "text" qry r'] by blast
qed

text \<open>The theorem on a collaborator that answers with no vector.\<close>

theorem invalid_embeddings_witness:
  "searchItems (backend embeds_nothing) ''cat'' [dog, cat] False = Inr (items_lexical ''cat'' [dog, cat])
   \<and> searchInText (backend embeds_nothing) ''you'' ''Hello world. How are you?'' default_opts False
       = Inl (Error ''Invalid embeddings response'')"
proof -
  have 1: "initialized (backend embeds_nothing)"
    and 2: "embeddingProvider (backend embeds_nothing) = Some embeds_nothing"
    by (simp_all add: backend_def)
  have inv: "invalid_response n (Some [])" for n
    by (simp add: invalid_response_def)
  have "searchInText (backend embeds_nothing) ''you'' ''Hello world. How are you?'' default_opts False
       = Inl (Error ''Invalid embeddings response'')"
    by (simp add: searchInText_def backend_def embeds_nothing_def default_opts_def chunks_hello)
  then show ?thesis
    using invalid_embeddings [OF 1 2, of "[dog, cat]" "''cat''" "Some []"
        "chunkBySentences ''Hello world. How are you?''" default_opts
        "''Hello world. How are you?''" "Some []"] inv
    by (simp add: embeds_nothing_def default_opts_def chunks_hello)
qed

text \<open>
  C7 as stated fails for \<open>searchItems\<close>: on an invalid response it returns a ranking, not a
  failure.
\<close>

theorem searchItems_recovers:
  "searchItems (backend embeds_nothing) ''cat'' [dog, cat] False
     = Inr [\<lparr>item = cat, score = 1\<rparr>, \<lparr>item = dog, score = 0\<rparr>]"
  by (simp add: searchItems_def backend_def embeds_nothing_def items_try_def cat_def dog_def
      lexical_dog_cat)

section \<open>Order and range of the scores\<close>





















section \<open>Query controller: superseded and repeated searches\<close>

lemma supersede_facts:
  assumes "supersede q s = (k, s')"
  shows "k = length (signals s)" "abortControllerRef s' = Some k"
    "length (signals s') = Suc k" "results s' = results s" "lastQueryRef s' = q"
    "query s' = query s"
  using assms by (auto simp: supersede_def Let_def split: option.splits)

lemma useSearch_started:
  assumes "useSearch_search cl mql t sq s = (Awaiting k, s')"
  shows "k = length (signals s)" "abortControllerRef s' = Some k"
    "length (signals s') = Suc k" "results s' = results s"
    "lastQueryRef s' = (case sq of None \<Rightarrow> query s | Some q \<Rightarrow> q)" "lastTextRef s' = t"
    "query s' = query s" "cl"
    "\<not> int (length (case sq of None \<Rightarrow> query s | Some q \<Rightarrow> q)) < mql"
proof -
  let ?q = "case sq of None \<Rightarrow> query s | Some q \<Rightarrow> q"
  obtain s1 where sup: "supersede ?q s = (k, s1)" and s': "s' = s1\<lparr>lastTextRef := t\<rparr>"
    and g: "cl" "\<not> int (length ?q) < mql"
    using assms
    by (cases "supersede ?q s") (auto simp: useSearch_search_def Let_def split: if_splits)
  show "k = length (signals s)" "abortControllerRef s' = Some k"
    "length (signals s') = Suc k" "results s' = results s"
    "lastQueryRef s' = ?q" "lastTextRef s' = t" "query s' = query s" "cl"
    "\<not> int (length ?q) < mql"
    using supersede_facts [OF sup] g by (simp_all add: s')
qed

lemma useSelect_started:
  assumes "useSelect_search cl mql q s = (Awaiting k, s')"
  shows "k = length (signals s)" "abortControllerRef s' = Some k"
    "length (signals s') = Suc k" "results s' = results s" "lastQueryRef s' = q"
    "cl" "\<not> int (length q) < mql"
proof -
  have sup: "supersede q s = (k, s')" and g: "cl" "\<not> int (length q) < mql"
    using assms
    by (cases "supersede q s"; auto simp: useSelect_search_def Let_def split: if_splits)+
  show "k = length (signals s)" "abortControllerRef s' = Some k"
    "length (signals s') = Suc k" "results s' = results s" "lastQueryRef s' = q"
    "cl" "\<not> int (length q) < mql"
    using supersede_facts [OF sup] g by simp_all
qed

lemma useSearch_stale:
  assumes "abortControllerRef s \<noteq> Some k"
  shows "fst (useSearch_settle k out s) = []"
    "results (snd (useSearch_settle k out s)) = results s"
    "abortControllerRef (snd (useSearch_settle k out s)) = abortControllerRef s"
    "useSearch_settle k (Inr r) s = ([], s)"
    "useSearch_settle k (Inl AbortError) s = ([], s)"
  using assms
  by (auto simp: useSearch_settle_def finally_search_def split: sum.splits js_error.splits)

lemma useSearch_current:
  assumes "abortControllerRef s = Some k"
  shows "fst (useSearch_settle k (Inr r) s) = r"
    "useSearch_settle k (Inr r) s = (r, s\<lparr>results := r, isSearching := False\<rparr>)"
  using assms by (auto simp: useSearch_settle_def finally_search_def)

lemma useSelect_stale:
  assumes "abortControllerRef s \<noteq> Some k"
  shows "fst (useSelect_settle ms mr k out s) = []"
    "results (snd (useSelect_settle ms mr k out s)) = results s"
    "abortControllerRef (snd (useSelect_settle ms mr k out s)) = abortControllerRef s"
    "useSelect_settle ms mr k (Inr r) s = ([], s)"
    "useSelect_settle ms mr k (Inl AbortError) s = ([], s)"
  using assms
  by (auto simp: useSelect_settle_def finally_search_def split: sum.splits js_error.splits)

lemma useSelect_current:
  assumes "abortControllerRef s = Some k"
  shows "useSelect_settle ms mr k (Inr r) s
     = (threshold_and_cap ms mr r, s\<lparr>results := threshold_and_cap ms mr r, isSearching := False\<rparr>)"
  using assms by (auto simp: useSelect_settle_def finally_search_def Let_def)

lemma useSearch_pair:
  assumes "useSearch_search cl1 mql1 t1 sq1 s0 = (Awaiting k1, s1)"
    and "useSearch_search cl2 mql2 t2 sq2 s1 = (Awaiting k2, s2)"
  shows "k1 \<noteq> k2
     \<and> fst (useSearch_settle k1 out1 s2) = []
     \<and> results (snd (useSearch_settle k1 out1 s2)) = results s2
     \<and> useSearch_settle k1 (Inr r1) s2 = ([], s2)
     \<and> results (snd (useSearch_settle k1 out1 (snd (useSearch_settle k2 (Inr r2) s2)))) = r2
     \<and> results (snd (useSearch_settle k2 (Inr r2) (snd (useSearch_settle k1 out1 s2)))) = r2"
proof -
  have k: "k1 \<noteq> k2" and cur: "abortControllerRef s2 = Some k2"
    using useSearch_started(1,3) [OF assms(1)] useSearch_started(1,2) [OF assms(2)] by simp_all
  then have stale: "abortControllerRef s2 \<noteq> Some k1" by simp
  have a: "results (snd (useSearch_settle k1 out1 (snd (useSearch_settle k2 (Inr r2) s2)))) = r2"
  proof -
    have "abortControllerRef (s2\<lparr>results := r2, isSearching := False\<rparr>) \<noteq> Some k1"
      using stale by simp
    from useSearch_stale(2) [OF this, of out1] show ?thesis
      by (simp add: useSearch_current(2) [OF cur])
  qed
  have b: "results (snd (useSearch_settle k2 (Inr r2) (snd (useSearch_settle k1 out1 s2)))) = r2"
    using useSearch_stale(3) [OF stale, of out1] cur
    by (simp add: useSearch_current(2))
  show ?thesis
    using k useSearch_stale(1,2,4) [OF stale] a b by simp
qed

lemma useSelect_pair:
  assumes "useSelect_search cl1 mql1 q1 s0 = (Awaiting k1, s1)"
    and "useSelect_search cl2 mql2 q2 s1 = (Awaiting k2, s2)"
  shows "k1 \<noteq> k2
     \<and> fst (useSelect_settle ms mr k1 out1 s2) = []
     \<and> results (snd (useSelect_settle ms mr k1 out1 s2)) = results s2
     \<and> useSelect_settle ms mr k1 (Inr r1) s2 = ([], s2)
     \<and> results (snd (useSelect_settle ms mr k1 out1 (snd (useSelect_settle ms' mr' k2 (Inr r2) s2))))
         = threshold_and_cap ms' mr' r2
     \<and> results (snd (useSelect_settle ms' mr' k2 (Inr r2) (snd (useSelect_settle ms mr k1 out1 s2))))
         = threshold_and_cap ms' mr' r2"
proof -
  have k: "k1 \<noteq> k2" and cur: "abortControllerRef s2 = Some k2"
    using useSelect_started(1,3) [OF assms(1)] useSelect_started(1,2) [OF assms(2)] by simp_all
  then have stale: "abortControllerRef s2 \<noteq> Some k1" by simp
  have a: "results (snd (useSelect_settle ms mr k1 out1 (snd (useSelect_settle ms' mr' k2 (Inr r2) s2))))
         = threshold_and_cap ms' mr' r2"
  proof -
    have "abortControllerRef (s2\<lparr>results := threshold_and_cap ms' mr' r2, isSearching := False\<rparr>)
            \<noteq> Some k1"
      using stale by simp
    from useSelect_stale(2) [OF this, of ms mr out1] show ?thesis
      by (simp add: useSelect_current [OF cur])
  qed
  have b: "results (snd (useSelect_settle ms' mr' k2 (Inr r2) (snd (useSelect_settle ms mr k1 out1 s2))))
         = threshold_and_cap ms' mr' r2"
    using useSelect_stale(3) [OF stale, of ms mr out1] cur
    by (simp add: useSelect_current)
  show ?thesis
    using k useSelect_stale(1,2,4) [OF stale] a b by simp
qed

lemma search_first_eq:
  "useSearch_search True 2 hello_text (Some ''hello'') (useSearch_initial []) = (Awaiting 0, search_first)"
  by (simp add: search_first_def useSearch_search_def useSearch_initial_def supersede_def hello_text_def)

lemma search_first_state:
  "search_first = \<lparr>query = [], results = [], isSearching = True, error = None,
      lastQueryRef = ''hello'', abortControllerRef = Some 0, signals = [False],
      lastTextRef = hello_text\<rparr>"
  by (simp add: search_first_def useSearch_search_def useSearch_initial_def supersede_def hello_text_def)

lemma search_second_eq:
  "useSearch_search True 2 hello_text (Some ''you'') search_first = (Awaiting 1, search_second)"
  by (simp add: search_second_def search_first_state useSearch_search_def supersede_def)

lemma select_first_eq:
  "useSelect_search True 1 ''cat'' (useSelect_initial []) = (Awaiting 0, select_first)"
  by (simp add: select_first_def useSelect_search_def useSelect_initial_def supersede_def)

lemma select_first_state:
  "select_first = \<lparr>query = [], results = [], isSearching = True, error = None,
      lastQueryRef = ''cat'', abortControllerRef = Some 0, signals = [False], isOpen = False\<rparr>"
  by (simp add: select_first_def useSelect_search_def useSelect_initial_def supersede_def)

lemma select_second_eq:
  "useSelect_search True 1 ''dog'' select_first = (Awaiting 1, select_second)"
  by (simp add: select_second_def select_first_state useSelect_search_def supersede_def)

text \<open>
  C3: when a second search is issued while the first is pending, in \<open>useSearch\<close> and in
  \<open>useSelect\<close> alike, the two hold different controllers, and the first, however it
  settles, returns the empty list and leaves \<open>results\<close> as they are: settling before the
  second it commits nothing (a resolution leaves the whole state unchanged), settling after
  the second it leaves the second's committed results in place, and the second commits its
  results whether the first has settled or not.
\<close>

theorem superseded_search_never_commits:
  assumes "useSearch_search cl1 mql1 t1 sq1 s0 = (Awaiting k1, s1)"
    and "useSearch_search cl2 mql2 t2 sq2 s1 = (Awaiting k2, s2)"
    and "useSelect_search cl3 mql3 q3 u0 = (Awaiting k3, u1)"
    and "useSelect_search cl4 mql4 q4 u1 = (Awaiting k4, u2)"
  shows "(k1 \<noteq> k2
     \<and> fst (useSearch_settle k1 out1 s2) = []
     \<and> results (snd (useSearch_settle k1 out1 s2)) = results s2
     \<and> useSearch_settle k1 (Inr r1) s2 = ([], s2)
     \<and> results (snd (useSearch_settle k1 out1 (snd (useSearch_settle k2 (Inr r2) s2)))) = r2
     \<and> results (snd (useSearch_settle k2 (Inr r2) (snd (useSearch_settle k1 out1 s2)))) = r2)
   \<and> (k3 \<noteq> k4
     \<and> fst (useSelect_settle ms mr k3 out3 u2) = []
     \<and> results (snd (useSelect_settle ms mr k3 out3 u2)) = results u2
     \<and> useSelect_settle ms mr k3 (Inr r3) u2 = ([], u2)
     \<and> results (snd (useSelect_settle ms mr k3 out3 (snd (useSelect_settle ms' mr' k4 (Inr r4) u2))))
         = threshold_and_cap ms' mr' r4
     \<and> results (snd (useSelect_settle ms' mr' k4 (Inr r4) (snd (useSelect_settle ms mr k3 out3 u2))))
         = threshold_and_cap ms' mr' r4)"
  using useSearch_pair [OF assms(1,2)] useSelect_pair [OF assms(3,4)] by blast


text \<open>
  The theorem on two searches on new hooks, the first settling after the second: resolving
  in \<open>useSearch\<close>, rejecting in \<open>useSelect\<close>.
\<close>

theorem superseded_search_never_commits_witness:
  "results (snd (useSearch_settle 0
       (Inr [\<lparr>text_of = ''Hello world.'', startOffset = 0, endOffset = 12, chunk_score = 1\<rparr>])
       (snd (useSearch_settle 1
          (Inr [\<lparr>text_of = ''How are you?'', startOffset = 12, endOffset = 25, chunk_score = 1\<rparr>])
          search_second))))
     = [\<lparr>text_of = ''How are you?'', startOffset = 12, endOffset = 25, chunk_score = 1\<rparr>]
   \<and> results (snd (useSelect_settle 0 0 0 (Inl (Error ''late''))
       (snd (useSelect_settle 0 0 1 (Inr [\<lparr>item = dog, score = 1\<rparr>]) select_second))))
     = [\<lparr>item = dog, score = 1\<rparr>]"
  using superseded_search_never_commits [OF search_first_eq search_second_eq select_first_eq
      select_second_eq,
      of "Inr [\<lparr>text_of = ''Hello world.'', startOffset = 0, endOffset = 12, chunk_score = 1\<rparr>]"
         _ "[\<lparr>text_of = ''How are you?'', startOffset = 12, endOffset = 25, chunk_score = 1\<rparr>]"
         0 0 "Inl (Error ''late'')" _ 0 0 "[\<lparr>item = dog, score = 1\<rparr>]"]
  by (simp add: threshold_and_cap_def)





section \<open>Highlight projector\<close>

lemma take_drop_append:
  "i \<le> j \<Longrightarrow> j \<le> k \<Longrightarrow> take (j - i) (drop i s) @ take (k - j) (drop j s) = take (k - i) (drop i s)"
proof -
  assume le: "i \<le> j" "j \<le> k"
  have "take (j - i) (drop i s) @ take (k - j) (drop (j - i) (drop i s))
          = take ((j - i) + (k - j)) (drop i s)"
    by (simp add: take_add)
  moreover have "drop (j - i) (drop i s) = drop j s" using le by simp
  moreover have "(j - i) + (k - j) = k - i" using le by simp
  ultimately show ?thesis by simp
qed

lemma slice_append:
  assumes "0 \<le> a" "a \<le> b" "b \<le> c"
  shows "slice s a b @ slice s b c = slice s a c"
proof -
  let ?n = "int (length s)"
  have d: "nat (min b ?n - min a ?n) = nat (min b ?n) - nat (min a ?n)"
    "nat (min c ?n - min b ?n) = nat (min c ?n) - nat (min b ?n)"
    "nat (min c ?n - min a ?n) = nat (min c ?n) - nat (min a ?n)"
    using assms by (simp_all add: nat_diff_distrib)
  have le: "nat (min a ?n) \<le> nat (min b ?n)" "nat (min b ?n) \<le> nat (min c ?n)"
    using assms by simp_all
  have s: "slice s a b = take (nat (min b ?n - min a ?n)) (drop (nat (min a ?n)) s)"
    "slice s b c = take (nat (min c ?n - min b ?n)) (drop (nat (min b ?n)) s)"
    "slice s a c = take (nat (min c ?n - min a ?n)) (drop (nat (min a ?n)) s)"
    using assms by (simp_all add: slice_def Let_def)
  show ?thesis unfolding s d by (rule take_drop_append [OF le])
qed

lemma slice_same: "0 \<le> a \<Longrightarrow> slice s a a = []"
  by (simp add: slice_def Let_def)

lemma slice_all: "int (length s) \<le> b \<Longrightarrow> slice s 0 b = s"
  by (simp add: slice_def Let_def)

lemma project_chunks_concat:
  assumes "well_placed t cursor cs" "0 \<le> cursor" "project_chunks t cs cursor segs = (cur, segs')"
  shows "concat (map seg_text segs') = concat (map seg_text segs) @ slice t cursor cur \<and> cursor \<le> cur"
  using assms
proof (induction cs arbitrary: cursor segs)
  case Nil
  then show ?case by (simp add: slice_same)
next
  case (Cons c cs)
  let ?gap = "if startOffset c > cursor
              then [\<lparr>seg_text = slice t cursor (startOffset c), isHighlight = False, seg_score = None\<rparr>]
              else []"
  let ?segs = "segs @ ?gap @ [\<lparr>seg_text = text_of c, isHighlight = True, seg_score = Some (chunk_score c)\<rparr>]"
  from Cons.prems(1) have wp: "cursor \<le> startOffset c" "startOffset c \<le> endOffset c"
    "text_of c = slice t (startOffset c) (endOffset c)" "well_placed t (endOffset c) cs"
    by simp_all
  have gap: "concat (map seg_text ?gap) = slice t cursor (startOffset c)"
    using wp(1) Cons.prems(2) by (auto simp: slice_same)
  have rec: "project_chunks t cs (endOffset c) ?segs = (cur, segs')"
    using Cons.prems(3) by (simp add: Let_def)
  have e: "0 \<le> endOffset c" using wp(1,2) Cons.prems(2) by simp
  from Cons.IH [OF wp(4) e rec]
  have ih: "concat (map seg_text segs') = concat (map seg_text ?segs) @ slice t (endOffset c) cur"
    and le: "endOffset c \<le> cur" by simp_all
  have segs: "concat (map seg_text ?segs)
      = concat (map seg_text segs) @ slice t cursor (startOffset c) @ slice t (startOffset c) (endOffset c)"
    using gap wp(3) by simp
  have j1: "slice t cursor (startOffset c) @ slice t (startOffset c) (endOffset c)
      = slice t cursor (endOffset c)"
    using slice_append [OF Cons.prems(2) wp(1,2)] .
  have le2: "cursor \<le> endOffset c" using wp(1,2) by simp
  have j2: "slice t cursor (endOffset c) @ slice t (endOffset c) cur = slice t cursor cur"
    using slice_append [OF Cons.prems(2) le2 le] .
  have "concat (map seg_text segs')
      = concat (map seg_text segs)
        @ (slice t cursor (startOffset c) @ slice t (startOffset c) (endOffset c))
        @ slice t (endOffset c) cur"
    unfolding ih segs by simp
  also have "\<dots> = concat (map seg_text segs) @ slice t cursor cur"
    unfolding j1 j2 ..
  finally show ?case using le2 le by simp
qed

text \<open>
  When the chunks lie on the text in order without overlap and each chunk's text is the
  untrimmed slice between its offsets, the segment texts concatenate to the text.
\<close>

lemma highlight_roundtrip_untrimmed:
  assumes "well_placed t 0 (sort_key startOffset rs)"
  shows "concat (map seg_text (computeHighlightedSegments t rs)) = t"
proof (cases "length rs = 0 \<or> length t = 0")
  case True
  then show ?thesis by (auto simp: computeHighlightedSegments_def)
next
  case False
  obtain cur segs where p: "project_chunks t (sort_key startOffset rs) 0 [] = (cur, segs)"
    by (cases "project_chunks t (sort_key startOffset rs) 0 []")
  from project_chunks_concat [OF assms _ p]
  have c: "concat (map seg_text segs) = slice t 0 cur" and nn: "0 \<le> cur" by simp_all
  show ?thesis
  proof (cases "cur < int (length t)")
    case True
    have "slice t 0 cur @ slice t cur (int (length t)) = slice t 0 (int (length t))"
      using slice_append [of 0 cur "int (length t)" t] nn True by simp
    then show ?thesis
      using False True p c by (simp add: computeHighlightedSegments_def slice_from_def slice_all)
  next
    case F: False
    then show ?thesis
      using False p c by (simp add: computeHighlightedSegments_def slice_all)
  qed
qed

lemma hello_search:
  "searchInText (backend embeds_alike) ''you'' hello_text default_opts False
     = Inr [\<lparr>text_of = ''Hello world.'', startOffset = 0, endOffset = 12, chunk_score = 1\<rparr>,
            \<lparr>text_of = ''How are you?'', startOffset = 12, endOffset = 25, chunk_score = 1\<rparr>]"
proof -
  have c: "cosineSimilarity [1] [1] = 1"
    by (simp add: cosineSimilarity_def)
  show ?thesis
    by (simp add: searchInText_def backend_def embeds_alike_def default_opts_def hello_text_def
        chunks_hello elem_at_def embedding_score_def c slice_def upt_rec)
qed

text \<open>
  C1 on chunks as the text search returns them: for the text \<open>Hello world. How are you?\<close>
  the search returns both sentences, the second with its trimmed text and the offsets of
  the untrimmed match; \<open>computeHighlightedSegments\<close> emits the chunk's trimmed text, so the
  segment texts concatenate to \<open>Hello world.How are you?\<close>, without the space between the
  sentences, and not to the text.
\<close>

theorem highlight_loses_whitespace:
  "searchInText (backend embeds_alike) ''you'' hello_text default_opts False
     = Inr [\<lparr>text_of = ''Hello world.'', startOffset = 0, endOffset = 12, chunk_score = 1\<rparr>,
            \<lparr>text_of = ''How are you?'', startOffset = 12, endOffset = 25, chunk_score = 1\<rparr>]
   \<and> concat (map seg_text (computeHighlightedSegments hello_text
         [\<lparr>text_of = ''Hello world.'', startOffset = 0, endOffset = 12, chunk_score = 1\<rparr>,
          \<lparr>text_of = ''How are you?'', startOffset = 12, endOffset = 25, chunk_score = 1\<rparr>]))
       = ''Hello world.How are you?''
   \<and> concat (map seg_text (computeHighlightedSegments hello_text
         [\<lparr>text_of = ''Hello world.'', startOffset = 0, endOffset = 12, chunk_score = 1\<rparr>,
          \<lparr>text_of = ''How are you?'', startOffset = 12, endOffset = 25, chunk_score = 1\<rparr>]))
       \<noteq> hello_text"
  by (simp add: hello_search)
    (simp add: computeHighlightedSegments_def hello_text_def slice_def slice_from_def)

end
